theory Spec2Isabelle
  imports Main "HOL-Library.Sublist"
begin

section \<open>StripChromeSymbols.py: strings, paths and patterns\<close>

text \<open>
  The script \<^verbatim>\<open>bin/StripChromeSymbols.py\<close> is a Python 2 program for Windows. Its
  strings are byte strings, modelled as \<^typ>\<open>string\<close>. A backslash cannot be written
  inside a string literal of the logic, so it is the character \<open>BS\<close>.
\<close>

abbreviation BS :: char where "BS \<equiv> CHR 0x5C"
abbreviation NL :: char where "NL \<equiv> CHR 0x0A"

type_synonym path = string

text \<open>\<^verbatim>\<open>s.count(sub) > 0\<close> for a non-empty \<open>sub\<close>: \<open>sub\<close> occurs in \<open>s\<close>.\<close>

fun occurs :: "string \<Rightarrow> string \<Rightarrow> bool" where
  "occurs sub [] = (sub = [])"
| "occurs sub (c # cs) = (prefix sub (c # cs) \<or> occurs sub cs)"

text \<open>\<^verbatim>\<open>s.strip()\<close>: the whitespace of Python 2 byte strings, removed at both ends.\<close>

definition is_space :: "char \<Rightarrow> bool" where
  "is_space c = (c = CHR '' '' \<or> c = CHR 0x09 \<or> c = NL \<or> c = CHR 0x0B \<or> c = CHR 0x0C \<or> c = CHR 0x0D)"

definition strip :: "string \<Rightarrow> string" where
  "strip s = rev (dropWhile is_space (rev (dropWhile is_space s)))"

text \<open>\<^verbatim>\<open>sep.join(xs)\<close> and \<^verbatim>\<open>s.split(sep)\<close> for a one-character separator.\<close>

fun str_join :: "string \<Rightarrow> string list \<Rightarrow> string" where
  "str_join sep [] = []"
| "str_join sep [x] = x"
| "str_join sep (x # y # ys) = x @ sep @ str_join sep (y # ys)"

fun str_split :: "char \<Rightarrow> string \<Rightarrow> string list" where
  "str_split sep [] = [[]]"
| "str_split sep (c # cs) =
     (if c = sep then [] # str_split sep cs
      else (case str_split sep cs of [] \<Rightarrow> [[c]] | w # ws \<Rightarrow> (c # w) # ws))"

subsection \<open>The functions of \<^verbatim>\<open>os.path\<close> (ntpath) that the script calls\<close>

text \<open>
  The library module is not part of the repository; these follow ntpath of Python 2.7 for
  paths with an optional drive letter. UNC shares (which Python 2.7.8 and later also treat
  as a drive) are not modelled.
\<close>

definition is_sep :: "char \<Rightarrow> bool" where
  "is_sep c = (c = BS \<or> c = CHR ''/'')"

definition splitdrive :: "path \<Rightarrow> path \<times> path" where
  "splitdrive p = (if take 1 (drop 1 p) = '':'' then (take 2 p, drop 2 p) else ([], p))"

definition path_split :: "path \<Rightarrow> path \<times> path" where
  "path_split p0 =
     (let (d, p) = splitdrive p0;
          tail = rev (takeWhile (\<lambda>c. \<not> is_sep c) (rev p));
          head = take (length p - length tail) p;
          head2 = rev (dropWhile is_sep (rev head))
      in (d @ (if head2 = [] then head else head2), tail))"

definition lower_char :: "char \<Rightarrow> char" where
  "lower_char c =
     (let n = (of_char c :: nat) in if 65 \<le> n \<and> n \<le> 90 then char_of (n + 32) else c)"

definition join_rel :: "path \<Rightarrow> path \<Rightarrow> path" where
  "join_rel result_path p_path =
     (if result_path \<noteq> [] \<and> \<not> is_sep (last result_path) then result_path @ [BS] else result_path)
     @ p_path"

definition join_step :: "path \<times> path \<Rightarrow> path \<Rightarrow> path \<times> path" where
  "join_step r p =
     (let (result_drive, result_path) = r; (p_drive, p_path) = splitdrive p
      in if p_path \<noteq> [] \<and> is_sep (hd p_path)
         then (if p_drive \<noteq> [] \<or> result_drive = [] then p_drive else result_drive, p_path)
         else if p_drive \<noteq> [] \<and> p_drive \<noteq> result_drive
         then (if map lower_char p_drive \<noteq> map lower_char result_drive
               then (p_drive, p_path)
               else (p_drive, join_rel result_path p_path))
         else (result_drive, join_rel result_path p_path))"

definition path_join :: "path \<Rightarrow> path list \<Rightarrow> path" where
  "path_join p ps = (let (d, r) = foldl join_step (splitdrive p) ps in d @ r)"

text \<open>
  The component loop of \<^verbatim>\<open>normpath\<close>: \<open>dn\<close> holds \<^verbatim>\<open>comps[:i]\<close> and the list
  argument \<^verbatim>\<open>comps[i:]\<close>.
\<close>

fun norm_comps :: "path \<Rightarrow> string list \<Rightarrow> string list \<Rightarrow> string list" where
  "norm_comps pre dn [] = dn"
| "norm_comps pre dn (c # cs) =
     (if c = ''.'' \<or> c = [] then norm_comps pre dn cs
      else if c = ''..'' then
        (if dn \<noteq> [] \<and> last dn \<noteq> ''..'' then norm_comps pre (butlast dn) cs
         else if dn = [] \<and> pre \<noteq> [] \<and> last pre = BS then norm_comps pre dn cs
         else norm_comps pre (dn @ [c]) cs)
      else norm_comps pre (dn @ [c]) cs)"

definition normpath :: "path \<Rightarrow> path" where
  "normpath p0 =
     (if prefix [BS, BS, CHR ''.'', BS] p0 \<or> prefix [BS, BS, CHR ''?'', BS] p0 then p0
      else
        let p1 = map (\<lambda>c. if c = CHR ''/'' then BS else c) p0;
            (d, p) = splitdrive p1;
            (pre, rest) =
              (if d = [] then (takeWhile (\<lambda>c. c = BS) p, dropWhile (\<lambda>c. c = BS) p)
               else if prefix [BS] p then (d @ [BS], dropWhile (\<lambda>c. c = BS) p)
               else (d, p));
            comps = norm_comps pre [] (str_split BS rest)
        in pre @ str_join [BS] (if pre = [] \<and> comps = [] then [''.''] else comps))"

subsection \<open>The two regular expressions\<close>

text \<open>
  Both patterns are sequences of literal text and greedy \<^verbatim>\<open>.*\<close>, applied with
  \<^verbatim>\<open>match\<close>: anchored at the start, free at the end. \<open>rmatch\<close> is the backtracking
  matcher for such patterns; it returns the text taken by each \<^verbatim>\<open>.*\<close>, in order. A
  \<^verbatim>\<open>.*\<close> first takes as many characters other than newline as it can and gives them
  back one at a time.
\<close>

datatype tok = Lit string | Star

fun greedy :: "(string \<Rightarrow> string list option) \<Rightarrow> string \<Rightarrow> string list option" where
  "greedy k [] = map_option (Cons []) (k [])"
| "greedy k (c # cs) =
     (if c = NL then map_option (Cons []) (k (c # cs))
      else (case greedy k cs of
              Some (g # gs) \<Rightarrow> Some ((c # g) # gs)
            | _ \<Rightarrow> map_option (Cons []) (k (c # cs))))"

primrec rmatch :: "tok list \<Rightarrow> string \<Rightarrow> string list option" where
  "rmatch [] = (\<lambda>s. Some [])"
| "rmatch (t # ts) =
     (case t of
        Lit l \<Rightarrow> (\<lambda>s. if prefix l s then rmatch ts (drop (length l) s) else None)
      | Star \<Rightarrow> greedy (rmatch ts))"

text \<open>
  \<^verbatim>\<open>pdbRe = re.compile(r'"\[RSDS\] PdbSig: {(.*-.*-.*-.*-.*)}; Age: (.*); Pdb: (.*)"')\<close>
  and its three groups.
\<close>

definition pdbRe_toks :: "tok list" where
  "pdbRe_toks =
     [Lit ''\"[RSDS] PdbSig: {'', Star, Lit ''-'', Star, Lit ''-'', Star, Lit ''-'', Star,
      Lit ''-'', Star, Lit ''}; Age: '', Star, Lit ''; Pdb: '', Star, Lit ''\"'']"

definition pdbRe :: "string \<Rightarrow> (string \<times> string \<times> string) option" where
  "pdbRe line =
     (case rmatch pdbRe_toks line of
        Some [g1, g2, g3, g4, g5, age, pth] \<Rightarrow>
          Some (g1 @ ''-'' @ g2 @ ''-'' @ g3 @ ''-'' @ g4 @ ''-'' @ g5, age, pth)
      | _ \<Rightarrow> None)"

text \<open>\<^verbatim>\<open>pdbCachedRe = re.compile(r"Found symbol file - placed it in (.*)")\<close>\<close>

definition pdbCachedRe :: "string \<Rightarrow> string option" where
  "pdbCachedRe line =
     (case rmatch [Lit ''Found symbol file - placed it in '', Star] line of
        Some [p] \<Rightarrow> Some p
      | _ \<Rightarrow> None)"

section \<open>The world the script acts on\<close>

text \<open>
  The script is a sequence of effects on the file system, the process environment, the
  console and three external programs. A \<open>world\<close> holds what the script can observe and
  change: the paths that exist (relative paths are relative to the current directory, and
  a path is identified with its string), the environment, and the log of the calls made so
  far, in order. What lies outside the script is a \<open>host\<close>: the effect of running a
  command line (its output lines and the files afterwards, given the files and the
  environment before) and the name chosen by \<^verbatim>\<open>tempfile.mkdtemp\<close>. Starting a
  command, creating the temporary directory and printing are taken to succeed; the calls
  that raise in the model are \<^verbatim>\<open>shutil.copy2\<close> and \<^verbatim>\<open>os.rename\<close>.
\<close>

datatype event =
    Print string
  | Copy2 path path
  | Popen string
  | Mkdtemp path
  | Rename path path
  | Rmtree path

datatype exn = ShutilError | IOError | OSError

datatype outcome = Exit nat | Uncaught exn

record world =
  files :: "path set"
  environ :: "string \<Rightarrow> string option"
  calls :: "event list"

record host =
  popen :: "string \<Rightarrow> path set \<Rightarrow> (string \<Rightarrow> string option) \<Rightarrow> string list \<times> path set"
  mkdtemp :: "path set \<Rightarrow> path"

definition emit :: "event \<Rightarrow> world \<Rightarrow> world" where
  "emit e w = w\<lparr>calls := calls w @ [e]\<rparr>"

text \<open>What a log of calls says was created, run and removed.\<close>

fun created :: "event list \<Rightarrow> path list" where
  "created [] = []"
| "created (Mkdtemp d # es) = d # created es"
| "created (e # es) = created es"

fun invoked :: "event list \<Rightarrow> string list" where
  "invoked [] = []"
| "invoked (Popen cmd # es) = cmd # invoked es"
| "invoked (e # es) = invoked es"

fun removed :: "event list \<Rightarrow> path list" where
  "removed [] = []"
| "removed (Rmtree d # es) = d # removed es"
| "removed (e # es) = removed es"

text \<open>\<^verbatim>\<open>os.path.exists\<close>; the empty path never exists.\<close>

definition path_exists :: "world \<Rightarrow> path \<Rightarrow> bool" where
  "path_exists w p = (p \<noteq> [] \<and> p \<in> files w)"

text \<open>\<^verbatim>\<open>os.popen(cmd)\<close>, read to the end: the lines of output, and the world afterwards.\<close>

definition run_popen :: "host \<Rightarrow> string \<Rightarrow> world \<Rightarrow> string list \<times> world" where
  "run_popen h cmd w =
     (let (ls, fs) = popen h cmd (files w) (environ w) in (ls, (emit (Popen cmd) w)\<lparr>files := fs\<rparr>))"

text \<open>
  \<^verbatim>\<open>shutil.copy2(src, dst)\<close> raises \<^verbatim>\<open>shutil.Error\<close> when both name the same file
  and \<^verbatim>\<open>IOError\<close> when the source cannot be opened. A fallible operation returns the
  exception raised, if any, and the world at that point.
\<close>

definition copy2 :: "path \<Rightarrow> path \<Rightarrow> world \<Rightarrow> exn option \<times> world" where
  "copy2 src dst w =
     (let w1 = emit (Copy2 src dst) w
      in if src = dst then (Some ShutilError, w1)
         else if \<not> path_exists w src then (Some IOError, w1)
         else (None, w1\<lparr>files := insert dst (files w1)\<rparr>))"

text \<open>
  \<^verbatim>\<open>os.rename(src, dst)\<close> on Windows raises \<^verbatim>\<open>OSError\<close> when the source does not
  exist and when the destination already exists.
\<close>

definition rename :: "path \<Rightarrow> path \<Rightarrow> world \<Rightarrow> exn option \<times> world" where
  "rename src dst w =
     (let w1 = emit (Rename src dst) w
      in if \<not> path_exists w src \<or> path_exists w dst then (Some OSError, w1)
         else (None, w1\<lparr>files := insert dst (files w1 - {src})\<rparr>))"

text \<open>\<^verbatim>\<open>shutil.rmtree(dir, ignore_errors=True)\<close>: the directory and all below it go.\<close>

definition below :: "path \<Rightarrow> path \<Rightarrow> bool" where
  "below d p = (p = d \<or> prefix (d @ [BS]) p \<or> prefix (d @ ''/'') p)"

definition rmtree :: "path \<Rightarrow> world \<Rightarrow> world" where
  "rmtree d w = (emit (Rmtree d) w)\<lparr>files := {p \<in> files w. \<not> below d p}\<rparr>"

text \<open>A \<^verbatim>\<open>for\<close> loop whose body may raise: the first exception ends it.\<close>

fun for_each ::
  "('a \<Rightarrow> world \<Rightarrow> exn option \<times> world) \<Rightarrow> 'a list \<Rightarrow> world \<Rightarrow> exn option \<times> world" where
  "for_each body [] w = (None, w)"
| "for_each body (x # xs) w =
     (case body x w of
        (None, w') \<Rightarrow> for_each body xs w'
      | (Some e, w') \<Rightarrow> (Some e, w'))"

text \<open>\<^verbatim>\<open>for l in lines: print l.strip()\<close>\<close>

definition print_stripped :: "string list \<Rightarrow> world \<Rightarrow> world" where
  "print_stripped ls w = w\<lparr>calls := calls w @ map (\<lambda>l. Print (strip l)) ls\<rparr>"

section \<open>The script\<close>

subsection \<open>Lines 49 to 78: the gates and the staging of the support files\<close>

definition marker :: string where
  "marker = ''chromium-browser-symsrv''"

definition usage_msg :: "path \<Rightarrow> string" where
  "usage_msg script = ''Usage: '' @ script @ '' trace.etl''"

definition no_server_msg :: string where
  "no_server_msg =
     ''Chromium symbol server is not in _NT_SYMBOL_PATH. No symbol stripping needed.''"

definition no_pdbcopy_msg :: string where
  "no_pdbcopy_msg = ''pdbcopy.exe not found. No symbol stripping is possible.''"

definition no_retrieve_msg :: string where
  "no_retrieve_msg = ''RetrieveSymbols.exe not found. No symbol retrieval is possible.''"

definition support_files :: "path list" where
  "support_files = [''pdbcopy.exe'', ''dbghelp.dll'', ''symsrv.dll'']"

definition third_party_source :: "path \<Rightarrow> path \<Rightarrow> path" where
  "third_party_source scriptDir third_party =
     normpath (path_join scriptDir [''..'' @ [BS] @ ''third_party'', third_party])"

definition staged_dest :: "path \<Rightarrow> path \<Rightarrow> path" where
  "staged_dest scriptDir third_party = normpath (path_join scriptDir [third_party])"

text \<open>The body of the loop of lines 65 to 70.\<close>

definition stage :: "path \<Rightarrow> path \<Rightarrow> world \<Rightarrow> exn option \<times> world" where
  "stage scriptDir third_party w =
     (if \<not> path_exists w third_party
      then copy2 (third_party_source scriptDir third_party) (staged_dest scriptDir third_party) w
      else (None, w))"

subsection \<open>Lines 84 to 137: the scan of the trace dump\<close>

record vars =
  tempdirs :: "path list"
  symcacheFiles :: "path list"
  localSymbolFiles :: "path list"
  foundUncached :: bool

definition init_vars :: vars where
  "init_vars = \<lparr>tempdirs = [], symcacheFiles = [], localSymbolFiles = [], foundUncached = False\<rparr>"

definition pretranslate_msg :: string where
  "pretranslate_msg =
     ''Pre-translating chrome symbols from stripped PDBs to avoid 10-15 minute translation times.''"

definition dump_command :: "string \<Rightarrow> string" where
  "dump_command tracename = ''xperf -i \"'' @ tracename @ ''\" -tle -tti -a symcache -dbgid''"

definition failed_msg :: string where
  "failed_msg = ''Failed to retrieve symbols. Check for RetrieveSymbols.exe and support files.''"

text \<open>Line 108: the name of the cache file, from the identifier without dashes and the age.\<close>

definition symcache_name :: "string \<Rightarrow> string \<Rightarrow> path" where
  "symcache_name guid age =
     ''c:'' @ [BS] @ ''symcache'' @ [BS] @ ''chrome.dll-'' @ guid @ age @ ''v2.symcache''"

definition remove_dashes :: "string \<Rightarrow> string" where
  "remove_dashes guid = filter (\<lambda>c. c \<noteq> CHR ''-'') guid"

definition retrieve_command :: "path \<Rightarrow> string \<Rightarrow> string \<Rightarrow> string \<Rightarrow> string" where
  "retrieve_command retrievePath guid age filepart =
     retrievePath @ '' '' @ guid @ '' '' @ age @ '' '' @ filepart"

definition pdbcopy_command :: "path \<Rightarrow> path \<Rightarrow> path \<Rightarrow> string" where
  "pdbcopy_command pdbcopyPath pdbCachePath destPath =
     pdbcopyPath @ '' '' @ pdbCachePath @ '' '' @ destPath @ '' -p''"

text \<open>
  Lines 119 to 123: the last line of the retrieval output that matches gives the path.
\<close>

fun placed_in :: "string list \<Rightarrow> string option \<Rightarrow> string option" where
  "placed_in [] pdbCachePath = pdbCachePath"
| "placed_in (subline # rest) pdbCachePath =
     placed_in rest
       (case pdbCachedRe (strip subline) of Some p \<Rightarrow> Some p | None \<Rightarrow> pdbCachePath)"

text \<open>The truth value of \<^verbatim>\<open>pdbCachePath\<close>: neither \<^verbatim>\<open>None\<close> nor empty.\<close>

definition truthy :: "string option \<Rightarrow> bool" where
  "truthy x = (case x of None \<Rightarrow> False | Some s \<Rightarrow> s \<noteq> [])"

text \<open>
  Lines 130 to 135: a fresh directory, and the stripping copy into it. In Python
  \<^verbatim>\<open>tempfile.mkdtemp\<close> and \<^verbatim>\<open>os.popen\<close> can raise (no usable temporary directory, no
  process); the host always answers, so these failures are outside the model, and no
  property below says that a run cannot raise.
\<close>

definition strip_into_tempdir :: "host \<Rightarrow> path \<Rightarrow> path \<Rightarrow> vars \<times> world \<Rightarrow> vars \<times> world" where
  "strip_into_tempdir h pdbcopyPath pdbCachePath s =
     (let (v, w) = s;
          tempdir = mkdtemp h (files w);
          w1 = (emit (Mkdtemp tempdir) w)\<lparr>files := insert tempdir (files w)\<rparr>;
          v1 = v\<lparr>tempdirs := tempdirs v @ [tempdir]\<rparr>;
          destPath = path_join tempdir [snd (path_split pdbCachePath)];
          w2 = emit (Print (''Copying PDB to '' @ destPath)) w1;
          (copylines, w3) = run_popen h (pdbcopy_command pdbcopyPath pdbCachePath destPath) w2
      in (v1, print_stripped copylines w3))"

definition found_msg :: "string \<Rightarrow> string \<Rightarrow> string \<Rightarrow> string" where
  "found_msg filepart guid age =
     ''Found uncached reference to '' @ filepart @ '': '' @ guid @ '' - '' @ age"

text \<open>Lines 113 to 137: an entry whose cache file does not exist.\<close>

definition uncached ::
  "host \<Rightarrow> path \<Rightarrow> path \<Rightarrow> string \<Rightarrow> string \<Rightarrow> path \<Rightarrow> vars \<times> world \<Rightarrow> vars \<times> world" where
  "uncached h retrievePath pdbcopyPath guid age pth s =
     (let (v, w) = s;
          filepart = snd (path_split pth);
          v1 = v\<lparr>foundUncached := True\<rparr>;
          w1 = emit (Print (found_msg filepart guid age)) w;
          v2 = v1\<lparr>symcacheFiles := symcacheFiles v1 @ [symcache_name guid age]\<rparr>;
          retrieveCommand = retrieve_command retrievePath guid age filepart;
          w2 = emit (Print (''> '' @ retrieveCommand)) w1;
          (sublines, w3) = run_popen h retrieveCommand w2;
          w4 = print_stripped sublines w3;
          pdbCachePath = placed_in sublines None;
          (pdbCachePath2, v3) =
            (if \<not> truthy pdbCachePath \<and> path_exists w4 pth
             then (Some pth, v2\<lparr>localSymbolFiles := localSymbolFiles v2 @ [pth]\<rparr>)
             else (pdbCachePath, v2))
      in if truthy pdbCachePath2
         then strip_into_tempdir h pdbcopyPath (the pdbCachePath2) (v3, w4)
         else (v3, emit (Print failed_msg) w4))"

text \<open>
  Lines 102 to 106: a line that names one of the two binaries and matches the pattern
  gives the identifier without its dashes, the age and the path.
\<close>

definition matched :: "string \<Rightarrow> (string \<times> string \<times> path) option" where
  "matched line =
     (if occurs ''chrome.dll'' line \<or> occurs ''chrome_child.dll'' line
      then (case pdbRe line of
              None \<Rightarrow> None
            | Some (guid, age, pth) \<Rightarrow> Some (remove_dashes guid, age, pth))
      else None)"

text \<open>The body of the loop of lines 101 to 137, for one line of the dump.\<close>

definition scan_line :: "host \<Rightarrow> path \<Rightarrow> path \<Rightarrow> string \<Rightarrow> vars \<times> world \<Rightarrow> vars \<times> world" where
  "scan_line h retrievePath pdbcopyPath line s =
     (case matched line of
        None \<Rightarrow> s
      | Some (guid, age, pth) \<Rightarrow>
          if path_exists (snd s) (symcache_name guid age) then s
          else uncached h retrievePath pdbcopyPath guid age pth s)"

fun scan :: "host \<Rightarrow> path \<Rightarrow> path \<Rightarrow> string list \<Rightarrow> vars \<times> world \<Rightarrow> vars \<times> world" where
  "scan h retrievePath pdbcopyPath [] s = s"
| "scan h retrievePath pdbcopyPath (line # rest) s =
     scan h retrievePath pdbcopyPath rest (scan_line h retrievePath pdbcopyPath line s)"

subsection \<open>Lines 139 to 171: cache generation, verification and cleanup\<close>

definition renamed :: "path \<Rightarrow> path" where
  "renamed localPDB = localPDB @ ''x''"

definition gen_command :: "string \<Rightarrow> string" where
  "gen_command tracename =
     ''xperf -i \"'' @ tracename @ ''\" -symbols -tle -tti -a symcache -build''"

definition retaining_msg :: string where
  "retaining_msg = ''Retaining PDBs to allow rerunning xperf command-line.''"

text \<open>The bodies of the loops of lines 143 to 146 and of lines 151 to 153.\<close>

definition rename_away :: "path \<Rightarrow> world \<Rightarrow> exn option \<times> world" where
  "rename_away localPDB w =
     rename localPDB (renamed localPDB)
       (emit (Print (''Renaming '' @ localPDB @ '' to '' @ renamed localPDB
                     @ '' to stop unstripped PDBs from being used.'')) w)"

definition rename_back :: "path \<Rightarrow> world \<Rightarrow> exn option \<times> world" where
  "rename_back localPDB w = rename (renamed localPDB) localPDB w"

text \<open>Lines 154 to 160: one message for each expected cache file; the flag \<^verbatim>\<open>error\<close>.\<close>

fun check_generated :: "path list \<Rightarrow> bool \<times> world \<Rightarrow> bool \<times> world" where
  "check_generated [] s = s"
| "check_generated (symcacheFile # rest) (error, w) =
     check_generated rest
       (if path_exists w symcacheFile
        then (error, emit (Print (symcacheFile @ '' generated.'')) w)
        else (True, emit (Print (''Error: '' @ symcacheFile @ '' not generated.'')) w))"

text \<open>Lines 154 to 166.\<close>

definition verify_and_clean :: "vars \<Rightarrow> world \<Rightarrow> world" where
  "verify_and_clean v w =
     (let (error, w1) = check_generated (symcacheFiles v) (False, w)
      in if error then emit (Print retaining_msg) w1
         else foldl (\<lambda>w d. rmtree d w) w1 (tempdirs v))"

text \<open>Lines 140 to 153: the cache build, between the two rename loops.\<close>

definition build_symcache :: "host \<Rightarrow> string \<Rightarrow> vars \<Rightarrow> world \<Rightarrow> exn option \<times> world" where
  "build_symcache h tracename v w =
     (let symbolPath = str_join '';'' (tempdirs v);
          w1 = emit (Print (''Stripped PDBs are in '' @ symbolPath
                            @ ''. Converting to symcache files now.'')) w;
          w2 = w1\<lparr>environ := (environ w1)(''_NT_SYMBOL_PATH'' \<mapsto> symbolPath)\<rparr>
      in case for_each rename_away (localSymbolFiles v) w2 of
           (Some e, w3) \<Rightarrow> (Some e, w3)
         | (None, w3) \<Rightarrow>
             let w4 = emit (Print (''> '' @ gen_command tracename)) w3;
                 (ignored, w5) = run_popen h (gen_command tracename) w4
             in for_each rename_back (localSymbolFiles v) w5)"

text \<open>Lines 140 to 166, entered when \<^verbatim>\<open>tempdirs\<close> is not empty.\<close>

definition regenerate :: "host \<Rightarrow> string \<Rightarrow> vars \<Rightarrow> world \<Rightarrow> outcome \<times> world" where
  "regenerate h tracename v w =
     (case build_symcache h tracename v w of
        (Some e, w1) \<Rightarrow> (Uncaught e, w1)
      | (None, w1) \<Rightarrow> (Exit 0, verify_and_clean v w1))"

definition finish :: "host \<Rightarrow> string \<Rightarrow> vars \<Rightarrow> world \<Rightarrow> outcome \<times> world" where
  "finish h tracename v w =
     (if tempdirs v \<noteq> [] then regenerate h tracename v w
      else if foundUncached v then (Exit 0, emit (Print ''No PDBs copied, nothing to do.'') w)
      else (Exit 0, emit (Print ''No uncached PDBS found, nothing to do.'') w))"

subsection \<open>The whole run\<close>

text \<open>
  \<^verbatim>\<open>sys.argv\<close> is the script path followed by the arguments. A run ends with
  \<^verbatim>\<open>sys.exit(0)\<close>, by reaching the end of the file (status 0), or with an exception
  that nothing catches.
\<close>

definition after_gates :: "host \<Rightarrow> path \<Rightarrow> string \<Rightarrow> world \<Rightarrow> outcome \<times> world" where
  "after_gates h scriptDir tracename w =
     (let retrievePath = path_join scriptDir [''RetrieveSymbols.exe''];
          pdbcopyPath = path_join scriptDir [''pdbcopy.exe'']
      in if \<not> path_exists w pdbcopyPath then (Exit 0, emit (Print no_pdbcopy_msg) w)
         else if \<not> path_exists w retrievePath then (Exit 0, emit (Print no_retrieve_msg) w)
         else
           let w1 = emit (Print pretranslate_msg) w;
               w2 = emit (Print (''> '' @ dump_command tracename)) w1;
               (lines, w3) = run_popen h (dump_command tracename) w2;
               (v, w4) = scan h retrievePath pdbcopyPath lines (init_vars, w3)
           in finish h tracename v w4)"

text \<open>\<^verbatim>\<open>os.environ.get("_NT_SYMBOL_PATH", "")\<close>\<close>

definition symbol_path :: "world \<Rightarrow> string" where
  "symbol_path w = (case environ w ''_NT_SYMBOL_PATH'' of None \<Rightarrow> [] | Some s \<Rightarrow> s)"

definition main :: "host \<Rightarrow> path \<Rightarrow> string list \<Rightarrow> world \<Rightarrow> outcome \<times> world" where
  "main h script args w =
     (case args of
        [] \<Rightarrow> (Exit 0, emit (Print (usage_msg script)) w)
      | tracename # _ \<Rightarrow>
          let symbolPath = symbol_path w
          in if \<not> occurs marker symbolPath then (Exit 0, emit (Print no_server_msg) w)
             else
               let scriptDir = fst (path_split script)
               in case for_each (stage scriptDir) support_files w of
                    (Some e, w1) \<Rightarrow> (Uncaught e, w1)
                  | (None, w1) \<Rightarrow> after_gates h scriptDir tracename w1)"

section \<open>Vocabulary of the properties\<close>

text \<open>
  The world after lines 113 to 123 of an entry: the two messages, the retrieval command and
  its echoed output have been added to the log, and the files are those the retrieval
  tool left.
\<close>

definition retrieved_world ::
  "path \<Rightarrow> string \<Rightarrow> string \<Rightarrow> path \<Rightarrow> string list \<Rightarrow> path set \<Rightarrow> world \<Rightarrow> world" where
  "retrieved_world rp guid age pth sublines fs w =
     w\<lparr>files := fs,
       calls := calls w @ [Print (found_msg (snd (path_split pth)) guid age),
                Print (''> '' @ retrieve_command rp guid age (snd (path_split pth))),
                Popen (retrieve_command rp guid age (snd (path_split pth)))]
               @ map (\<lambda>l. Print (strip l)) sublines\<rparr>"

subsection \<open>Concrete hosts and inputs\<close>

text \<open>
  Hosts: one whose programs print nothing and change nothing; one whose trace dump lists
  the same locally built PDB twice and whose retrieval finds nothing; one that lists it
  once; one whose retrieval succeeds and whose cache build writes the cache file. Temporary
  directories are fresh.
\<close>

definition chrome_line :: string where
  "chrome_line =
     ''\"[RSDS] PdbSig: {be90dbc6-fe31-4842-9c72-7e2ea88f0adf}; Age: 1; Pdb: chrome.dll.pdb\"''
     @ [NL]"

definition child_line :: string where
  "child_line =
     ''\"[RSDS] PdbSig: {be90dbc6-fe31-4842-9c72-7e2ea88f0adf}; Age: 1; Pdb: C:/b/chrome_child.dll.pdb\"''
     @ [NL]"

definition chrome_symcache :: path where
  "chrome_symcache =
     ''c:'' @ [BS] @ ''symcache'' @ [BS] @ ''chrome.dll-be90dbc6fe3148429c727e2ea88f0adf1v2.symcache''"

definition idle_host :: host where
  "idle_host = \<lparr>popen = (\<lambda>cmd fs env. ([], fs)), mkdtemp = (\<lambda>fs. ''tmp'')\<rparr>"

definition twice_host :: host where
  "twice_host =
     \<lparr>popen = (\<lambda>cmd fs env.
        (if cmd = dump_command ''trace.etl'' then [chrome_line, chrome_line] else [], fs)),
      mkdtemp = (\<lambda>fs. if ''tmp1'' \<in> fs then ''tmp2'' else ''tmp1'')\<rparr>"


definition good_host :: host where
  "good_host =
     \<lparr>popen = (\<lambda>cmd fs env.
        if cmd = dump_command ''trace.etl'' then ([chrome_line], fs)
        else if cmd = gen_command ''trace.etl'' then ([], insert chrome_symcache fs)
        else if cmd = ''RetrieveSymbols.exe be90dbc6fe3148429c727e2ea88f0adf 1 chrome.dll.pdb''
        then ([''Found symbol file - placed it in c:/symbols/chrome.dll.pdb'' @ [NL]], fs)
        else ([], fs)),
      mkdtemp = (\<lambda>fs. if ''tmp1'' \<in> fs then ''tmp2'' else ''tmp1'')\<rparr>"

text \<open>
  Worlds: an empty one; one with the tools and support files in the current directory,
  which is also the script directory; the same with a locally built PDB, with the cache
  file already present, and without \<^verbatim>\<open>pdbcopy.exe\<close>; and one where the script lives in \<^verbatim>\<open>bin\<close> below the
  current directory, with staged copies there and originals in \<^verbatim>\<open>third_party\<close>.
\<close>

definition sym_env :: "string \<Rightarrow> string option" where
  "sym_env =
     [''_NT_SYMBOL_PATH'' \<mapsto>
        ''SRV*c:/symbols*https://chromium-browser-symsrv.commondatastorage.googleapis.com'']"

definition bare_world :: world where
  "bare_world = \<lparr>files = {}, environ = Map.empty, calls = []\<rparr>"

definition tooled_world :: world where
  "tooled_world =
     \<lparr>files = {''pdbcopy.exe'', ''dbghelp.dll'', ''symsrv.dll'', ''RetrieveSymbols.exe''},
      environ = sym_env, calls = []\<rparr>"

definition local_world :: world where
  "local_world = tooled_world\<lparr>files := insert ''chrome.dll.pdb'' (files tooled_world)\<rparr>"

definition cached_world :: world where
  "cached_world = tooled_world\<lparr>files := insert chrome_symcache (files tooled_world)\<rparr>"

definition staged_world :: world where
  "staged_world =
     \<lparr>files = {''bin'' @ [BS] @ ''pdbcopy.exe'', ''bin'' @ [BS] @ ''dbghelp.dll'',
               ''bin'' @ [BS] @ ''symsrv.dll'', ''bin'' @ [BS] @ ''RetrieveSymbols.exe'',
               ''third_party'' @ [BS] @ ''pdbcopy.exe'', ''third_party'' @ [BS] @ ''dbghelp.dll'',
               ''third_party'' @ [BS] @ ''symsrv.dll''},
      environ = sym_env, calls = []\<rparr>"

definition no_pdbcopy_world :: world where
  "no_pdbcopy_world =
     \<lparr>files = {''dbghelp.dll'', ''symsrv.dll'', ''RetrieveSymbols.exe''},
      environ = sym_env, calls = []\<rparr>"

section \<open>Properties\<close>

subsection \<open>Basic facts\<close>

lemma occurs_iff_sublist: "occurs sub s \<longleftrightarrow> sublist sub s"
  by (induction s) (simp_all add: sublist_Cons_right)

lemma emit_fields:
  "files (emit e w) = files w" "environ (emit e w) = environ w"
  "calls (emit e w) = calls w @ [e]"
  by (simp_all add: emit_def)

lemma created_append: "created (xs @ ys) = created xs @ created ys"
  by (induction xs rule: created.induct) simp_all

lemma invoked_append: "invoked (xs @ ys) = invoked xs @ invoked ys"
  by (induction xs rule: invoked.induct) simp_all

lemma removed_append: "removed (xs @ ys) = removed xs @ removed ys"
  by (induction xs rule: removed.induct) simp_all

lemma prints_project:
  "created (map (\<lambda>l. Print (f l)) ls) = []"
  "invoked (map (\<lambda>l. Print (f l)) ls) = []"
  "removed (map (\<lambda>l. Print (f l)) ls) = []"
  by (induction ls) simp_all



lemmas project_simps = created_append invoked_append removed_append prints_project



lemma dump_is_not_build: "dump_command tracename \<noteq> gen_command tracename"
  by (simp add: dump_command_def gen_command_def)

lemma renamed_inj: "renamed p = renamed q \<longleftrightarrow> p = q"
  by (simp add: renamed_def)

lemma copy2_log:
  assumes "copy2 src dst w = (r, w')"
  shows "calls w' = calls w @ [Copy2 src dst]"
  using assms by (auto simp add: copy2_def emit_def Let_def split: if_splits)


subsection \<open>One entry of the dump, step by step\<close>

lemma strip_into_tempdir_eq:
  assumes "popen h (pdbcopy_command pp src (path_join (mkdtemp h (files w)) [snd (path_split src)]))
             (insert (mkdtemp h (files w)) (files w)) (environ w) = (copylines, fs2)"
  shows "strip_into_tempdir h pp src (v, w) =
     (v\<lparr>tempdirs := tempdirs v @ [mkdtemp h (files w)]\<rparr>,
      w\<lparr>files := fs2,
        calls := calls w @ [Mkdtemp (mkdtemp h (files w)),
                 Print (''Copying PDB to '' @ path_join (mkdtemp h (files w)) [snd (path_split src)]),
                 Popen (pdbcopy_command pp src (path_join (mkdtemp h (files w)) [snd (path_split src)]))]
                @ map (\<lambda>l. Print (strip l)) copylines\<rparr>)"
  using assms
  by (simp add: strip_into_tempdir_def run_popen_def emit_def print_stripped_def Let_def)

lemma strip_into_tempdir_ex:
  "\<exists>copylines fs2. strip_into_tempdir h pp src (v, w) =
     (v\<lparr>tempdirs := tempdirs v @ [mkdtemp h (files w)]\<rparr>,
      w\<lparr>files := fs2,
        calls := calls w @ [Mkdtemp (mkdtemp h (files w)),
                 Print (''Copying PDB to '' @ path_join (mkdtemp h (files w)) [snd (path_split src)]),
                 Popen (pdbcopy_command pp src (path_join (mkdtemp h (files w)) [snd (path_split src)]))]
                @ map (\<lambda>l. Print (strip l)) copylines\<rparr>)"
proof -
  obtain copylines fs2 where
    "popen h (pdbcopy_command pp src (path_join (mkdtemp h (files w)) [snd (path_split src)]))
       (insert (mkdtemp h (files w)) (files w)) (environ w) = (copylines, fs2)"
    by (cases "popen h (pdbcopy_command pp src (path_join (mkdtemp h (files w)) [snd (path_split src)]))
       (insert (mkdtemp h (files w)) (files w)) (environ w)")
  from strip_into_tempdir_eq [OF this] show ?thesis by blast
qed

lemma uncached_eq:
  assumes "popen h (retrieve_command rp guid age (snd (path_split pth))) (files w) (environ w)
             = (sublines, fs)"
  shows "uncached h rp pp guid age pth (v, w) =
     (let v2 = v\<lparr>foundUncached := True,
                 symcacheFiles := symcacheFiles v @ [symcache_name guid age]\<rparr>;
          w4 = retrieved_world rp guid age pth sublines fs w
      in if truthy (placed_in sublines None)
         then strip_into_tempdir h pp (the (placed_in sublines None)) (v2, w4)
         else if pth \<noteq> [] \<and> pth \<in> fs
         then strip_into_tempdir h pp pth (v2\<lparr>localSymbolFiles := localSymbolFiles v @ [pth]\<rparr>, w4)
         else (v2, w4\<lparr>calls := calls w4 @ [Print failed_msg]\<rparr>))"
  using assms
  by (simp add: uncached_def run_popen_def emit_def print_stripped_def Let_def path_exists_def
      retrieved_world_def truthy_def)

lemma retrieved_world_project:
  "files (retrieved_world rp guid age pth sublines fs w) = fs"
  "created (calls (retrieved_world rp guid age pth sublines fs w)) = created (calls w)"
  "invoked (calls (retrieved_world rp guid age pth sublines fs w))
     = invoked (calls w) @ [retrieve_command rp guid age (snd (path_split pth))]"
  "removed (calls (retrieved_world rp guid age pth sublines fs w)) = removed (calls w)"
  by (simp_all add: retrieved_world_def project_simps)

lemma scan_line_uncached:
  assumes "matched line = Some (guid, age, pth)" "\<not> path_exists w (symcache_name guid age)"
  shows "scan_line h rp pp line (v, w) = uncached h rp pp guid age pth (v, w)"
  using assms by (simp add: scan_line_def)

lemma uncached_symcacheFiles:
  "symcacheFiles (fst (uncached h rp pp guid age pth (v, w)))
     = symcacheFiles v @ [symcache_name guid age]"
  by (simp add: uncached_def Let_def strip_into_tempdir_def split: prod.splits)

subsection \<open>What the scan adds to the log\<close>





lemma scan_all_cached:
  assumes "\<forall>line\<in>set lines. \<forall>guid age pth.
             matched line = Some (guid, age, pth) \<longrightarrow> path_exists w (symcache_name guid age)"
  shows "scan h rp pp lines (v, w) = (v, w)"
  using assms by (induction lines) (auto simp add: scan_line_def split: option.splits)

subsection \<open>Staging, renaming, verification and cleanup\<close>

lemma for_each_stage_log:
  assumes "for_each (stage d) xs w = (r, w')"
  shows "\<exists>cs. calls w' = calls w @ cs \<and> (\<forall>e\<in>set cs. \<exists>s t. e = Copy2 s t)
            \<and> (r \<noteq> None \<longrightarrow> cs \<noteq> [])"
  using assms
proof (induction xs arbitrary: w)
  case Nil
  then show ?case by simp
next
  case (Cons x xs)
  obtain r1 w1 where 1: "stage d x w = (r1, w1)" by (cases "stage d x w")
  then have c: "\<exists>cs. calls w1 = calls w @ cs \<and> (\<forall>e\<in>set cs. \<exists>s t. e = Copy2 s t)
      \<and> (r1 \<noteq> None \<longrightarrow> cs \<noteq> [])"
    by (auto simp add: stage_def split: if_splits dest!: copy2_log)
  show ?case
  proof (cases r1)
    case None
    with Cons.prems 1 have "for_each (stage d) xs w1 = (r, w')" by simp
    from Cons.IH [OF this] c show ?thesis by auto
  next
    case (Some e)
    with Cons.prems 1 c show ?thesis by auto
  qed
qed






subsection \<open>When the renames are undone\<close>

text \<open>
  The two rename loops undo each other when the recorded local files are pairwise
  different, none of their renamed names is taken, and the cache build leaves both names
  alone.
\<close>

lemma for_each_rename_away_ok:
  assumes "distinct ps" and "\<forall>p\<in>set ps. path_exists w p \<and> renamed p \<notin> files w"
  shows "\<exists>w'. for_each rename_away ps w = (None, w')
            \<and> files w' = (files w - set ps) \<union> renamed ` set ps \<and> environ w' = environ w"
  using assms
proof (induction ps arbitrary: w)
  case Nil
  then show ?case by simp
next
  case (Cons p ps)
  let ?w1 = "(emit (Rename p (renamed p)) (emit (Print (''Renaming '' @ p @ '' to '' @ renamed p
                     @ '' to stop unstripped PDBs from being used.'')) w))
             \<lparr>files := insert (renamed p) (files w - {p})\<rparr>"
  from Cons.prems have 1: "rename_away p w = (None, ?w1)"
    by (simp add: rename_away_def rename_def path_exists_def emit_def Let_def)
  have "distinct ps" using Cons.prems by simp
  moreover have "\<forall>q\<in>set ps. path_exists ?w1 q \<and> renamed q \<notin> files ?w1"
    using Cons.prems by (auto simp add: path_exists_def emit_def renamed_inj)
  ultimately obtain w' where w': "for_each rename_away ps ?w1 = (None, w')"
      "files w' = (files ?w1 - set ps) \<union> renamed ` set ps" "environ w' = environ ?w1"
    using Cons.IH [of ?w1] by blast
  have "renamed p \<notin> set ps" using Cons.prems by (auto simp add: path_exists_def)
  with w' 1 show ?case by (auto simp add: emit_def)
qed

lemma for_each_rename_back_ok:
  assumes "distinct ps" and "\<forall>p\<in>set ps. renamed p \<in> files w \<and> p \<notin> files w"
  shows "\<exists>w'. for_each rename_back ps w = (None, w')
            \<and> files w' = (files w - renamed ` set ps) \<union> set ps"
  using assms
proof (induction ps arbitrary: w)
  case Nil
  then show ?case by simp
next
  case (Cons p ps)
  let ?w1 = "(emit (Rename (renamed p) p) w)\<lparr>files := insert p (files w - {renamed p})\<rparr>"
  from Cons.prems have 1: "rename_back p w = (None, ?w1)"
    by (simp add: rename_back_def rename_def path_exists_def emit_def Let_def renamed_def)
  have "distinct ps" using Cons.prems by simp
  moreover have "\<forall>q\<in>set ps. renamed q \<in> files ?w1 \<and> q \<notin> files ?w1"
    using Cons.prems by (auto simp add: emit_def renamed_inj)
  ultimately obtain w' where w': "for_each rename_back ps ?w1 = (None, w')"
      "files w' = (files ?w1 - renamed ` set ps) \<union> set ps"
    using Cons.IH [of ?w1] by blast
  have "p \<notin> renamed ` set ps" using Cons.prems by auto
  with w' 1 show ?case by (auto simp add: emit_def)
qed

lemma build_symcache_restores:
  assumes d: "distinct (localSymbolFiles v)"
    and e: "\<forall>p\<in>set (localSymbolFiles v). path_exists w p \<and> renamed p \<notin> files w"
    and g: "\<And>fs env p. p \<in> set (localSymbolFiles v) \<Longrightarrow>
              (p \<in> snd (popen h (gen_command tracename) fs env) \<longleftrightarrow> p \<in> fs)
            \<and> (renamed p \<in> snd (popen h (gen_command tracename) fs env) \<longleftrightarrow> renamed p \<in> fs)"
  shows "\<exists>w'. build_symcache h tracename v w = (None, w')
           \<and> (\<forall>p\<in>set (localSymbolFiles v). p \<in> files w' \<and> renamed p \<notin> files w')"
proof -
  let ?L = "localSymbolFiles v"
  let ?w2 = "(emit (Print (''Stripped PDBs are in '' @ str_join '';'' (tempdirs v)
                            @ ''. Converting to symcache files now.'')) w)
             \<lparr>environ := (environ w)(''_NT_SYMBOL_PATH'' \<mapsto> str_join '';'' (tempdirs v))\<rparr>"
  have "\<forall>p\<in>set ?L. path_exists ?w2 p \<and> renamed p \<notin> files ?w2"
    using e by (simp add: path_exists_def emit_def)
  from for_each_rename_away_ok [OF d this] obtain w3 where
    3: "for_each rename_away ?L ?w2 = (None, w3)"
       "files w3 = (files ?w2 - set ?L) \<union> renamed ` set ?L" by blast
  let ?w5 = "snd (run_popen h (gen_command tracename) (emit (Print (''> '' @ gen_command tracename)) w3))"
  have f5: "files ?w5 = snd (popen h (gen_command tracename) (files w3) (environ w3))"
    by (simp add: run_popen_def emit_def split: prod.splits)
  have "\<forall>p\<in>set ?L. renamed p \<in> files ?w5 \<and> p \<notin> files ?w5"
  proof -
    have ni: "\<forall>x\<in>set ?L. renamed x \<notin> set ?L"
      using e unfolding path_exists_def by blast
    show ?thesis
      unfolding f5 using g 3(2) ni by auto
  qed
  from for_each_rename_back_ok [OF d this] obtain w6 where
    6: "for_each rename_back ?L ?w5 = (None, w6)"
       "files w6 = (files ?w5 - renamed ` set ?L) \<union> set ?L" by blast
  have "build_symcache h tracename v w = (None, w6)"
    using 3(1) 6(1) by (auto simp add: build_symcache_def Let_def emit_def split: prod.splits)
  moreover have "\<forall>p\<in>set ?L. p \<in> files w6 \<and> renamed p \<notin> files w6"
    using 6(2) e by (auto simp add: path_exists_def renamed_inj)
  ultimately show ?thesis by blast
qed

text \<open>
  When the script is started from its own directory (empty script directory), the path
  tested by the staging loop is the destination of the copy.
\<close>

lemma stage_from_script_directory:
  assumes "f \<in> set support_files" and "path_exists w (staged_dest [] f)"
  shows "stage [] f w = (None, w)"
proof -
  have "staged_dest [] ''pdbcopy.exe'' = ''pdbcopy.exe''"
    "staged_dest [] ''dbghelp.dll'' = ''dbghelp.dll''"
    "staged_dest [] ''symsrv.dll'' = ''symsrv.dll''"
    by code_simp+
  with assms show ?thesis by (auto simp add: support_files_def stage_def)
qed

subsection \<open>The concrete lines\<close>

lemma chrome_line_matched:
  "matched chrome_line = Some (''be90dbc6fe3148429c727e2ea88f0adf'', ''1'', ''chrome.dll.pdb'')"
  by code_simp

lemma child_line_match:
  "pdbRe child_line
     = Some (''be90dbc6-fe31-4842-9c72-7e2ea88f0adf'', ''1'', ''C:/b/chrome_child.dll.pdb'')"
  by code_simp

lemma child_line_occurs: "occurs ''chrome_child.dll'' child_line"
  by code_simp

subsection \<open>The early exits\<close>

text \<open>
  Claim C9. A run without a trace-file argument prints the usage message and ends with
  status 0; it makes no other call and leaves the files and the environment as they were.
\<close>

theorem C9_no_argument_usage_exit0:
  "main h script [] w
     = (Exit 0, w\<lparr>calls := calls w @ [Print (''Usage: '' @ script @ '' trace.etl'')]\<rparr>)"
  by (simp add: main_def emit_def usage_msg_def)

text \<open>
  Claim C4. When the symbol path does not contain \<^verbatim>\<open>chromium-browser-symsrv\<close>, the
  run ends with status 0 after one printed message (the message about the symbol server
  when a trace file was given, the usage message otherwise): no copy, no command, no
  temporary directory, no rename, and the files are untouched.
\<close>

theorem C4_no_marker_exit0:
  assumes "\<not> sublist ''chromium-browser-symsrv'' (symbol_path w)"
  shows "main h script args w
           = (Exit 0, w\<lparr>calls := calls w @
                [Print (if args = [] then usage_msg script else no_server_msg)]\<rparr>)"
proof (cases args)
  case Nil
  then show ?thesis by (simp add: main_def emit_def)
next
  case (Cons tracename rest)
  from assms have "\<not> occurs marker (symbol_path w)"
    by (simp add: occurs_iff_sublist marker_def)
  with Cons show ?thesis by (simp add: main_def emit_def)
qed

text \<open>An instance: a symbol path that names only a local store.\<close>

theorem C4_no_marker_exit0_witness:
  "\<not> sublist ''chromium-browser-symsrv''
       (symbol_path (bare_world\<lparr>environ := [''_NT_SYMBOL_PATH'' \<mapsto> ''SRV*c:/symbols'']\<rparr>))
   \<and> main idle_host ''StripChromeSymbols.py'' [''trace.etl'']
         (bare_world\<lparr>environ := [''_NT_SYMBOL_PATH'' \<mapsto> ''SRV*c:/symbols'']\<rparr>)
       = (Exit 0, \<lparr>files = {}, environ = [''_NT_SYMBOL_PATH'' \<mapsto> ''SRV*c:/symbols''],
                   calls = [Print no_server_msg]\<rparr>)"
proof -
  let ?w = "bare_world\<lparr>environ := [''_NT_SYMBOL_PATH'' \<mapsto> ''SRV*c:/symbols'']\<rparr>"
  have h: "\<not> sublist ''chromium-browser-symsrv'' (symbol_path ?w)"
    by (simp add: symbol_path_def bare_world_def flip: occurs_iff_sublist)
  from C4_no_marker_exit0 [OF h, of idle_host "''StripChromeSymbols.py''" "[''trace.etl'']"]
  have "main idle_host ''StripChromeSymbols.py'' [''trace.etl''] ?w
          = (Exit 0, ?w\<lparr>calls := calls ?w @ [Print no_server_msg]\<rparr>)"
    by simp
  with h show ?thesis by (simp add: bare_world_def)
qed

subsection \<open>Staging\<close>

text \<open>
  Claim C5. The staging loop tests the bare file name, which is relative to the current
  directory, while the copy goes to the script directory. When the script is started from
  another directory, a support file already staged next to the script is copied over: here
  the script is \<^verbatim>\<open>bin\StripChromeSymbols.py\<close>, \<^verbatim>\<open>bin\pdbcopy.exe\<close> exists, and the
  run begins by copying the three files from \<^verbatim>\<open>third_party\<close> onto the staged ones.
\<close>

theorem C5_staged_copy_overwritten:
  "path_exists staged_world (staged_dest ''bin'' ''pdbcopy.exe'')
   \<and> staged_dest ''bin'' ''pdbcopy.exe'' = ''bin'' @ [BS] @ ''pdbcopy.exe''
   \<and> fst (path_split (''bin'' @ [BS] @ ''StripChromeSymbols.py'')) = ''bin''
   \<and> take 3 (calls (snd (main idle_host (''bin'' @ [BS] @ ''StripChromeSymbols.py'') [''trace.etl'']
                            staged_world)))
       = [Copy2 (''third_party'' @ [BS] @ ''pdbcopy.exe'') (''bin'' @ [BS] @ ''pdbcopy.exe''),
          Copy2 (''third_party'' @ [BS] @ ''dbghelp.dll'') (''bin'' @ [BS] @ ''dbghelp.dll''),
          Copy2 (''third_party'' @ [BS] @ ''symsrv.dll'') (''bin'' @ [BS] @ ''symsrv.dll'')]"
  by code_simp

subsection \<open>How a run ends\<close>

text \<open>
  Claim C8. The claim fails on the path of the missing tools. The docstring says the
  script exits early when \<^verbatim>\<open>pdbcopy.exe\<close> is not found, and lines 72 to 74 print a
  message and exit with status 0 for that case; but the staging loop comes first and its
  copy is not guarded against a missing source. With the symbol server in the symbol path
  and \<^verbatim>\<open>pdbcopy.exe\<close> nowhere, the first staging copy raises \<^verbatim>\<open>IOError\<close>, nothing
  catches it, and the run ends there: the only call made is that copy, and the message of
  line 73 is never printed.
\<close>

theorem C8_missing_pdbcopy_uncaught:
  "fst (main idle_host ''StripChromeSymbols.py'' [''trace.etl''] no_pdbcopy_world)
     = Uncaught IOError
   \<and> calls (snd (main idle_host ''StripChromeSymbols.py'' [''trace.etl''] no_pdbcopy_world))
     = [Copy2 (''..'' @ [BS] @ ''third_party'' @ [BS] @ ''pdbcopy.exe'') ''pdbcopy.exe'']
   \<and> \<not> path_exists no_pdbcopy_world ''pdbcopy.exe''
   \<and> \<not> path_exists no_pdbcopy_world (''..'' @ [BS] @ ''third_party'' @ [BS] @ ''pdbcopy.exe'')"
  by code_simp

subsection \<open>The name of the cache file\<close>

text \<open>
  Claim C10. For every line of the dump that names one of the two binaries and matches
  the pattern, the cache file that the script looks for, and records when it is absent,
  is \<^verbatim>\<open>c:\symcache\chrome.dll-\<close>, the identifier without dashes, the age, and
  \<^verbatim>\<open>v2.symcache\<close>. The name is built from the identifier and the age alone: the
  binary named by the line is not part of it.
\<close>

theorem C10_cache_name_uses_chrome_dll:
  assumes "occurs ''chrome.dll'' line \<or> occurs ''chrome_child.dll'' line"
    and "pdbRe line = Some (guid, age, pth)"
    and "name = ''c:'' @ [BS] @ ''symcache'' @ [BS] @ ''chrome.dll-'' @ remove_dashes guid @ age
                @ ''v2.symcache''"
  shows "(path_exists w name \<longrightarrow> scan_line h rp pp line (v, w) = (v, w))
       \<and> (\<not> path_exists w name \<longrightarrow>
            symcacheFiles (fst (scan_line h rp pp line (v, w))) = symcacheFiles v @ [name])"
  using assms
  by (simp add: scan_line_def matched_def Let_def symcache_name_def uncached_symcacheFiles)

text \<open>An instance: a line for \<^verbatim>\<open>chrome_child.dll\<close>.\<close>

theorem C10_cache_name_uses_chrome_dll_witness:
  "symcacheFiles (fst (scan_line idle_host ''RetrieveSymbols.exe'' ''pdbcopy.exe'' child_line
                         (init_vars, bare_world)))
     = [''c:'' @ [BS] @ ''symcache'' @ [BS]
        @ ''chrome.dll-be90dbc6fe3148429c727e2ea88f0adf1v2.symcache'']"
proof -
  have ne: "\<not> path_exists bare_world
              (''c:'' @ [BS] @ ''symcache'' @ [BS] @ ''chrome.dll-''
               @ remove_dashes ''be90dbc6-fe31-4842-9c72-7e2ea88f0adf'' @ ''1'' @ ''v2.symcache'')"
    by (simp add: path_exists_def bare_world_def)
  from C10_cache_name_uses_chrome_dll [OF disjI2 [OF child_line_occurs] child_line_match refl,
      of bare_world idle_host "''RetrieveSymbols.exe''" "''pdbcopy.exe''" init_vars] ne
  show ?thesis by (simp add: remove_dashes_def init_vars_def)
qed

subsection \<open>Entries that are already cached\<close>

text \<open>
  Claim C3. A matched line whose cache file exists leaves the variables and the world as
  they were: nothing is retrieved, stripped or created for it. When that holds for every
  matched line of the dump, the whole run adds to the log only messages, staging copies
  and the dump command itself (which differs from the cache-build command): no retrieval,
  no stripping, no cache build, no temporary directory, no rename.
\<close>

theorem C3_cached_entries_skipped:
  "(matched line = Some (guid, age, pth) \<longrightarrow> path_exists wx (symcache_name guid age)
      \<longrightarrow> scan_line h rp pp line (v, wx) = (v, wx))
   \<and> (w1 = snd (for_each (stage (fst (path_split script))) support_files w)
      \<longrightarrow> popen h (dump_command tracename) (files w1) (environ w1) = (lines, fs)
      \<longrightarrow> (\<forall>l\<in>set lines. \<forall>g a p. matched l = Some (g, a, p)
              \<longrightarrow> path_exists (w1\<lparr>files := fs\<rparr>) (symcache_name g a))
      \<longrightarrow> (\<exists>extra. calls (snd (main h script (tracename # rest) w)) = calls w @ extra
             \<and> (\<forall>e\<in>set extra. (\<exists>m. e = Print m) \<or> (\<exists>s t. e = Copy2 s t)
                               \<or> e = Popen (dump_command tracename))
             \<and> dump_command tracename \<noteq> gen_command tracename))"
proof (intro conjI impI)
  assume "matched line = Some (guid, age, pth)" "path_exists wx (symcache_name guid age)"
  then show "scan_line h rp pp line (v, wx) = (v, wx)" by (simp add: scan_line_def)
next
  let ?d = "fst (path_split script)"
  assume w1: "w1 = snd (for_each (stage ?d) support_files w)"
    and dump: "popen h (dump_command tracename) (files w1) (environ w1) = (lines, fs)"
    and cached: "\<forall>l\<in>set lines. \<forall>g a p. matched l = Some (g, a, p)
              \<longrightarrow> path_exists (w1\<lparr>files := fs\<rparr>) (symcache_name g a)"
  obtain r where st: "for_each (stage ?d) support_files w = (r, w1)"
    using w1 by (cases "for_each (stage ?d) support_files w") simp
  from for_each_stage_log [OF st] obtain cs where
    cs: "calls w1 = calls w @ cs" "\<forall>e\<in>set cs. \<exists>s t. e = Copy2 s t" by blast
  have sc: "\<And>rp pp wx. files wx = fs \<Longrightarrow> scan h rp pp lines (init_vars, wx) = (init_vars, wx)"
  proof -
    fix rp pp and wx :: world
    assume "files wx = fs"
    with cached have "\<forall>l\<in>set lines. \<forall>g a p. matched l = Some (g, a, p)
              \<longrightarrow> path_exists wx (symcache_name g a)"
      by (simp add: path_exists_def)
    then show "scan h rp pp lines (init_vars, wx) = (init_vars, wx)"
      by (rule scan_all_cached)
  qed
  have fin: "\<And>wx. finish h tracename init_vars wx
                 = (Exit 0, emit (Print ''No uncached PDBS found, nothing to do.'') wx)"
    by (simp add: finish_def init_vars_def)
  have ag: "\<exists>extra. calls (snd (after_gates h ?d tracename w1)) = calls w1 @ extra
             \<and> (\<forall>e\<in>set extra. (\<exists>m. e = Print m) \<or> e = Popen (dump_command tracename))"
    using dump
    by (simp add: after_gates_def Let_def run_popen_def emit_fields sc fin)
  have "\<exists>extra. calls (snd (main h script (tracename # rest) w)) = calls w @ extra
             \<and> (\<forall>e\<in>set extra. (\<exists>m. e = Print m) \<or> (\<exists>s t. e = Copy2 s t)
                               \<or> e = Popen (dump_command tracename))"
  proof (cases "occurs marker (symbol_path w)")
    case False
    then show ?thesis by (simp add: main_def emit_def)
  next
    case True
    show ?thesis
    proof (cases r)
      case None
      from ag obtain extra where
        "calls (snd (after_gates h ?d tracename w1)) = calls w @ (cs @ extra)"
        "\<forall>e\<in>set extra. (\<exists>m. e = Print m) \<or> e = Popen (dump_command tracename)"
        using cs(1) by auto
      with cs(2) None st True show ?thesis
        by (auto simp add: main_def intro!: exI [of _ "cs @ extra"])
    next
      case (Some e)
      with st True cs show ?thesis by (auto simp add: main_def)
    qed
  qed
  then show "\<exists>extra. calls (snd (main h script (tracename # rest) w)) = calls w @ extra
             \<and> (\<forall>e\<in>set extra. (\<exists>m. e = Print m) \<or> (\<exists>s t. e = Copy2 s t)
                               \<or> e = Popen (dump_command tracename))
             \<and> dump_command tracename \<noteq> gen_command tracename"
    using dump_is_not_build by blast
qed

text \<open>An instance: a second run, with the cache file of the only entry in place.\<close>

theorem C3_cached_entries_skipped_witness:
  "scan_line good_host ''RetrieveSymbols.exe'' ''pdbcopy.exe'' chrome_line (init_vars, cached_world)
     = (init_vars, cached_world)
   \<and> (\<exists>extra. calls (snd (main good_host ''StripChromeSymbols.py'' [''trace.etl''] cached_world))
                 = calls cached_world @ extra
          \<and> (\<forall>e\<in>set extra. (\<exists>m. e = Print m) \<or> (\<exists>s t. e = Copy2 s t)
                            \<or> e = Popen (dump_command ''trace.etl'')))"
proof -
  let ?w1 = "snd (for_each (stage (fst (path_split ''StripChromeSymbols.py''))) support_files
                   cached_world)"
  have ex: "path_exists cached_world (symcache_name ''be90dbc6fe3148429c727e2ea88f0adf'' ''1'')"
    by code_simp
  have ex1: "path_exists ?w1 (symcache_name ''be90dbc6fe3148429c727e2ea88f0adf'' ''1'')"
    by code_simp
  have dump: "popen good_host (dump_command ''trace.etl'') (files ?w1) (environ ?w1)
                = ([chrome_line], files ?w1)"
    by (simp add: good_host_def)
  have all: "\<forall>l\<in>set [chrome_line]. \<forall>g a p. matched l = Some (g, a, p)
               \<longrightarrow> path_exists (?w1\<lparr>files := files ?w1\<rparr>) (symcache_name g a)"
    using ex1 by (simp add: chrome_line_matched)
  from C3_cached_entries_skipped [where line = chrome_line and wx = cached_world
      and guid = "''be90dbc6fe3148429c727e2ea88f0adf''" and age = "''1''" and pth = "''chrome.dll.pdb''"
      and h = good_host and rp = "''RetrieveSymbols.exe''" and pp = "''pdbcopy.exe''"
      and v = init_vars and ?w1.0 = ?w1 and script = "''StripChromeSymbols.py''"
      and w = cached_world and tracename = "''trace.etl''" and lines = "[chrome_line]"
      and fs = "files ?w1" and rest = "[]"]
    chrome_line_matched ex dump all
  show ?thesis by blast
qed

subsection \<open>Entries that are not cached\<close>

text \<open>
  Claim C6. For an entry whose cache file is absent and whose retrieval output gives no
  path: when the path reported by the trace tool exists after the retrieval, it is appended
  to the local symbol files, a temporary directory is created and the stripping tool is run
  on that path; otherwise the local symbol files and the temporary directories stay as they
  were, the failure message is the last thing added to the log, and no directory is
  created. In both cases the loop goes on with the remaining lines.
\<close>

theorem C6_local_fallback:
  assumes m: "matched line = Some (guid, age, pth)"
    and nc: "\<not> path_exists w (symcache_name guid age)"
    and r: "popen h (retrieve_command rp guid age (snd (path_split pth))) (files w) (environ w)
             = (sublines, fs)"
    and np: "\<not> truthy (placed_in sublines None)"
    and s: "scan_line h rp pp line (v, w) = (v', w')"
  shows "(if path_exists (w\<lparr>files := fs\<rparr>) pth
          then localSymbolFiles v' = localSymbolFiles v @ [pth]
             \<and> tempdirs v' = tempdirs v @ [mkdtemp h fs]
             \<and> invoked (calls w') = invoked (calls w) @
                 [retrieve_command rp guid age (snd (path_split pth)),
                  pdbcopy_command pp pth (path_join (mkdtemp h fs) [snd (path_split pth)])]
          else localSymbolFiles v' = localSymbolFiles v
             \<and> tempdirs v' = tempdirs v
             \<and> created (calls w') = created (calls w)
             \<and> w' = (retrieved_world rp guid age pth sublines fs w)
                      \<lparr>calls := calls (retrieved_world rp guid age pth sublines fs w)
                                 @ [Print failed_msg]\<rparr>)
       \<and> scan h rp pp (line # rest) (v, w) = scan h rp pp rest (v', w')"
proof -
  let ?w4 = "retrieved_world rp guid age pth sublines fs w"
  let ?v2 = "v\<lparr>foundUncached := True, symcacheFiles := symcacheFiles v @ [symcache_name guid age]\<rparr>"
  from s m nc have u: "uncached h rp pp guid age pth (v, w) = (v', w')"
    by (simp add: scan_line_uncached)
  have cont: "scan h rp pp (line # rest) (v, w) = scan h rp pp rest (v', w')"
    by (simp add: s)
  show ?thesis
  proof (cases "pth \<noteq> [] \<and> pth \<in> fs")
    case True
    let ?v3 = "?v2\<lparr>localSymbolFiles := localSymbolFiles v @ [pth]\<rparr>"
    from strip_into_tempdir_ex [of h pp pth ?v3 ?w4] obtain copylines fs2 where
      "strip_into_tempdir h pp pth (?v3, ?w4) =
        (?v3\<lparr>tempdirs := tempdirs ?v3 @ [mkdtemp h fs]\<rparr>,
         ?w4\<lparr>files := fs2,
           calls := calls ?w4 @ [Mkdtemp (mkdtemp h fs),
             Print (''Copying PDB to '' @ path_join (mkdtemp h fs) [snd (path_split pth)]),
             Popen (pdbcopy_command pp pth (path_join (mkdtemp h fs) [snd (path_split pth)]))]
            @ map (\<lambda>l. Print (strip l)) copylines\<rparr>)"
      by (auto simp add: retrieved_world_project)
    with u np True cont show ?thesis
      by (auto simp add: uncached_eq [OF r] Let_def retrieved_world_project project_simps
          path_exists_def)
  next
    case False
    with u np cont show ?thesis
      by (auto simp add: uncached_eq [OF r] Let_def retrieved_world_project project_simps
          path_exists_def)
  qed
qed

text \<open>An instance: retrieval prints nothing and the PDB of the trace is a local file.\<close>

theorem C6_local_fallback_witness:
  "localSymbolFiles (fst (scan_line twice_host ''RetrieveSymbols.exe'' ''pdbcopy.exe'' chrome_line
                            (init_vars, local_world))) = [''chrome.dll.pdb'']
   \<and> tempdirs (fst (scan_line twice_host ''RetrieveSymbols.exe'' ''pdbcopy.exe'' chrome_line
                           (init_vars, local_world))) = [''tmp1'']
   \<and> invoked (calls (snd (scan_line twice_host ''RetrieveSymbols.exe'' ''pdbcopy.exe'' chrome_line
                           (init_vars, local_world))))
       = [''RetrieveSymbols.exe be90dbc6fe3148429c727e2ea88f0adf 1 chrome.dll.pdb'',
          ''pdbcopy.exe chrome.dll.pdb tmp1'' @ [BS] @ ''chrome.dll.pdb -p'']"
proof -
  let ?s = "scan_line twice_host ''RetrieveSymbols.exe'' ''pdbcopy.exe'' chrome_line
              (init_vars, local_world)"
  have nc: "\<not> path_exists local_world (symcache_name ''be90dbc6fe3148429c727e2ea88f0adf'' ''1'')"
    by code_simp
  have r: "popen twice_host (retrieve_command ''RetrieveSymbols.exe''
              ''be90dbc6fe3148429c727e2ea88f0adf'' ''1'' (snd (path_split ''chrome.dll.pdb'')))
             (files local_world) (environ local_world) = ([], files local_world)"
    by code_simp
  have np: "\<not> truthy (placed_in [] None)" by (simp add: truthy_def)
  have s: "?s = (fst ?s, snd ?s)" by simp
  have e: "path_exists (local_world\<lparr>files := files local_world\<rparr>) ''chrome.dll.pdb''"
    by code_simp
  have t: "mkdtemp twice_host (files local_world) = ''tmp1''" by code_simp
  have c: "retrieve_command ''RetrieveSymbols.exe'' ''be90dbc6fe3148429c727e2ea88f0adf'' ''1''
             (snd (path_split ''chrome.dll.pdb''))
           = ''RetrieveSymbols.exe be90dbc6fe3148429c727e2ea88f0adf 1 chrome.dll.pdb''"
    "pdbcopy_command ''pdbcopy.exe'' ''chrome.dll.pdb''
       (path_join ''tmp1'' [snd (path_split ''chrome.dll.pdb'')])
           = ''pdbcopy.exe chrome.dll.pdb tmp1'' @ [BS] @ ''chrome.dll.pdb -p''"
    by code_simp+
  have i: "invoked (calls local_world) = []" by code_simp
  from C6_local_fallback [OF chrome_line_matched nc r np s, where rest = "[]"] e t c i
  show ?thesis by (simp add: init_vars_def)
qed

text \<open>
  Claim C7, as amended. The expected cache file of every entry found to be uncached is
  recorded, whatever retrieval and the local fallback give. The temporary directory and
  the stripping command are added for the entry exactly when retrieval or the local
  fallback gives a path; when both fail, the name is recorded all the same, and the entry
  adds only the retrieval command and no directory.
\<close>

theorem C7_name_recorded_for_every_uncached_entry:
  assumes m: "matched line = Some (guid, age, pth)"
    and nc: "\<not> path_exists w (symcache_name guid age)"
    and r: "popen h (retrieve_command rp guid age (snd (path_split pth))) (files w) (environ w)
             = (sublines, fs)"
    and s: "scan_line h rp pp line (v, w) = (v', w')"
  shows "symcacheFiles v' = symcacheFiles v @ [symcache_name guid age]
       \<and> (if truthy (placed_in sublines None) \<or> path_exists (w\<lparr>files := fs\<rparr>) pth
          then tempdirs v' = tempdirs v @ [mkdtemp h fs]
             \<and> created (calls w') = created (calls w) @ [mkdtemp h fs]
             \<and> (\<exists>src. invoked (calls w') = invoked (calls w) @
                   [retrieve_command rp guid age (snd (path_split pth)),
                    pdbcopy_command pp src (path_join (mkdtemp h fs) [snd (path_split src)])])
          else tempdirs v' = tempdirs v
             \<and> created (calls w') = created (calls w)
             \<and> invoked (calls w') = invoked (calls w)
                  @ [retrieve_command rp guid age (snd (path_split pth))])"
proof -
  let ?w4 = "retrieved_world rp guid age pth sublines fs w"
  let ?v2 = "v\<lparr>foundUncached := True, symcacheFiles := symcacheFiles v @ [symcache_name guid age]\<rparr>"
  have st: "\<And>src v0. \<exists>copylines fs2. strip_into_tempdir h pp src (v0, ?w4) =
     (v0\<lparr>tempdirs := tempdirs v0 @ [mkdtemp h fs]\<rparr>,
      ?w4\<lparr>files := fs2,
        calls := calls ?w4 @ [Mkdtemp (mkdtemp h fs),
                 Print (''Copying PDB to '' @ path_join (mkdtemp h fs) [snd (path_split src)]),
                 Popen (pdbcopy_command pp src (path_join (mkdtemp h fs) [snd (path_split src)]))]
                @ map (\<lambda>l. Print (strip l)) copylines\<rparr>)"
    using strip_into_tempdir_ex [of h pp _ _ ?w4] by (simp add: retrieved_world_project)
  from s m nc have u: "uncached h rp pp guid age pth (v, w) = (v', w')"
    by (simp add: scan_line_uncached)
  show ?thesis
  proof (cases "truthy (placed_in sublines None)")
    case True
    from st [of "the (placed_in sublines None)" ?v2] obtain copylines fs2 where
      "strip_into_tempdir h pp (the (placed_in sublines None)) (?v2, ?w4) =
        (?v2\<lparr>tempdirs := tempdirs ?v2 @ [mkdtemp h fs]\<rparr>,
         ?w4\<lparr>files := fs2,
           calls := calls ?w4 @ [Mkdtemp (mkdtemp h fs),
             Print (''Copying PDB to ''
                    @ path_join (mkdtemp h fs) [snd (path_split (the (placed_in sublines None)))]),
             Popen (pdbcopy_command pp (the (placed_in sublines None))
                    (path_join (mkdtemp h fs) [snd (path_split (the (placed_in sublines None)))]))]
            @ map (\<lambda>l. Print (strip l)) copylines\<rparr>)"
      by blast
    with u True show ?thesis
      by (auto simp add: uncached_eq [OF r] Let_def retrieved_world_project project_simps)
  next
    case nt: False
    show ?thesis
    proof (cases "pth \<noteq> [] \<and> pth \<in> fs")
      case True
      let ?v3 = "?v2\<lparr>localSymbolFiles := localSymbolFiles v @ [pth]\<rparr>"
      from st [of pth ?v3] obtain copylines fs2 where
        "strip_into_tempdir h pp pth (?v3, ?w4) =
          (?v3\<lparr>tempdirs := tempdirs ?v3 @ [mkdtemp h fs]\<rparr>,
           ?w4\<lparr>files := fs2,
             calls := calls ?w4 @ [Mkdtemp (mkdtemp h fs),
               Print (''Copying PDB to '' @ path_join (mkdtemp h fs) [snd (path_split pth)]),
               Popen (pdbcopy_command pp pth (path_join (mkdtemp h fs) [snd (path_split pth)]))]
              @ map (\<lambda>l. Print (strip l)) copylines\<rparr>)"
        by blast
      with u nt True show ?thesis
        by (auto simp add: uncached_eq [OF r] Let_def retrieved_world_project project_simps
            path_exists_def)
    next
      case False
      with u nt show ?thesis
        by (auto simp add: uncached_eq [OF r] Let_def retrieved_world_project project_simps
            path_exists_def)
    qed
  qed
qed

text \<open>
  The claim as stated fails: when retrieval prints nothing and the reported path does not
  exist, the entry still leaves its cache-file name in the list to verify, with no
  temporary directory and no stripping command.
\<close>

theorem C7_failed_entry_still_recorded:
  "matched child_line
     = Some (''be90dbc6fe3148429c727e2ea88f0adf'', ''1'', ''C:/b/chrome_child.dll.pdb'')
   \<and> symcacheFiles (fst (scan_line idle_host ''RetrieveSymbols.exe'' ''pdbcopy.exe'' child_line
                             (init_vars, bare_world)))
       = [''c:'' @ [BS] @ ''symcache'' @ [BS]
          @ ''chrome.dll-be90dbc6fe3148429c727e2ea88f0adf1v2.symcache'']
   \<and> tempdirs (fst (scan_line idle_host ''RetrieveSymbols.exe'' ''pdbcopy.exe'' child_line
                        (init_vars, bare_world))) = []
   \<and> calls (snd (scan_line idle_host ''RetrieveSymbols.exe'' ''pdbcopy.exe'' child_line
                     (init_vars, bare_world)))
       = [Print ''Found uncached reference to chrome_child.dll.pdb: be90dbc6fe3148429c727e2ea88f0adf - 1'',
          Print ''> RetrieveSymbols.exe be90dbc6fe3148429c727e2ea88f0adf 1 chrome_child.dll.pdb'',
          Popen ''RetrieveSymbols.exe be90dbc6fe3148429c727e2ea88f0adf 1 chrome_child.dll.pdb'',
          Print failed_msg]"
  by code_simp

text \<open>An instance of the amended claim: retrieval succeeds.\<close>

theorem C7_name_recorded_for_every_uncached_entry_witness:
  "symcacheFiles (fst (scan_line good_host ''RetrieveSymbols.exe'' ''pdbcopy.exe'' chrome_line
                         (init_vars, tooled_world))) = [chrome_symcache]
   \<and> tempdirs (fst (scan_line good_host ''RetrieveSymbols.exe'' ''pdbcopy.exe'' chrome_line
                         (init_vars, tooled_world))) = [''tmp1'']
   \<and> created (calls (snd (scan_line good_host ''RetrieveSymbols.exe'' ''pdbcopy.exe'' chrome_line
                         (init_vars, tooled_world)))) = [''tmp1'']"
proof -
  let ?s = "scan_line good_host ''RetrieveSymbols.exe'' ''pdbcopy.exe'' chrome_line
              (init_vars, tooled_world)"
  let ?out = "[''Found symbol file - placed it in c:/symbols/chrome.dll.pdb'' @ [NL]]"
  have nc: "\<not> path_exists tooled_world (symcache_name ''be90dbc6fe3148429c727e2ea88f0adf'' ''1'')"
    by code_simp
  have r: "popen good_host (retrieve_command ''RetrieveSymbols.exe''
              ''be90dbc6fe3148429c727e2ea88f0adf'' ''1'' (snd (path_split ''chrome.dll.pdb'')))
             (files tooled_world) (environ tooled_world) = (?out, files tooled_world)"
    by code_simp
  have s: "?s = (fst ?s, snd ?s)" by simp
  have u: "truthy (placed_in ?out None)" by code_simp
  have t: "mkdtemp good_host (files tooled_world) = ''tmp1''" by code_simp
  have n: "symcache_name ''be90dbc6fe3148429c727e2ea88f0adf'' ''1'' = chrome_symcache" by code_simp
  have i: "created (calls tooled_world) = []" by code_simp
  from C7_name_recorded_for_every_uncached_entry [OF chrome_line_matched nc r s] u t n i
  show ?thesis by (simp add: init_vars_def)
qed

subsection \<open>The renames around the cache build\<close>

text \<open>
  Claim C1. The claim fails when the dump lists the same locally built PDB on two lines
  and retrieval finds nothing: the path is recorded twice, the first rename moves the file
  away, the second rename of the same path raises, and the run ends there, before the
  cache build and before the loop that renames back. The file was present under its own
  name before the run and is left under the renamed name.
\<close>

theorem C1_duplicate_local_file_left_renamed:
  "fst (main twice_host ''StripChromeSymbols.py'' [''trace.etl''] local_world) = Uncaught OSError
   \<and> ''chrome.dll.pdb'' \<in> files local_world
   \<and> ''chrome.dll.pdb''
       \<notin> files (snd (main twice_host ''StripChromeSymbols.py'' [''trace.etl''] local_world))
   \<and> ''chrome.dll.pdbx''
       \<in> files (snd (main twice_host ''StripChromeSymbols.py'' [''trace.etl''] local_world))
   \<and> drop 17 (calls (snd (main twice_host ''StripChromeSymbols.py'' [''trace.etl''] local_world)))
       = [Rename ''chrome.dll.pdb'' ''chrome.dll.pdbx'',
          Print ''Renaming chrome.dll.pdb to chrome.dll.pdbx to stop unstripped PDBs from being used.'',
          Rename ''chrome.dll.pdb'' ''chrome.dll.pdbx'']"
  by code_simp

subsection \<open>Verification and cleanup\<close>



end
